theory Spec2Isabelle
  imports Complex_Main "HOL-Library.Sublist"
begin

section \<open>Numbers, strings and object lookup of the source language\<close>

text \<open>
  The engine is JavaScript. Its numbers are modelled as exact rationals: the employee
  attributes, budgets and percentages that reach the engine come from JSON bodies and
  schema-typed documents, which hold finite numbers only. The one way the engine itself
  makes a value that is not a number is arithmetic on \<^verbatim>\<open>undefined\<close>;
  \<open>NaN\<close> below stands for such a value (\<^verbatim>\<open>NaN\<close>,
  \<^verbatim>\<open>undefined\<close>, or an object that is not a number): it is falsy,
  every arithmetic operator maps it to \<open>NaN\<close> and every comparison with it is false.
\<close>

datatype jsnum = Num rat | NaN

instantiation jsnum :: "{plus, minus, times, inverse}"
begin

fun plus_jsnum :: "jsnum \<Rightarrow> jsnum \<Rightarrow> jsnum" where
  "plus_jsnum (Num a) (Num b) = Num (a + b)"
| "plus_jsnum _ _ = NaN"

fun minus_jsnum :: "jsnum \<Rightarrow> jsnum \<Rightarrow> jsnum" where
  "minus_jsnum (Num a) (Num b) = Num (a - b)"
| "minus_jsnum _ _ = NaN"

fun times_jsnum :: "jsnum \<Rightarrow> jsnum \<Rightarrow> jsnum" where
  "times_jsnum (Num a) (Num b) = Num (a * b)"
| "times_jsnum _ _ = NaN"

text \<open>Every divisor of the source is guarded or constant, so it is never zero; a zero
  divisor (an infinity in the source language) is not modelled and given as \<open>NaN\<close>.\<close>

fun divide_jsnum :: "jsnum \<Rightarrow> jsnum \<Rightarrow> jsnum" where
  "divide_jsnum (Num a) (Num b) = (if b = 0 then NaN else Num (a / b))"
| "divide_jsnum _ _ = NaN"

fun inverse_jsnum :: "jsnum \<Rightarrow> jsnum" where
  "inverse_jsnum (Num a) = (if a = 0 then NaN else Num (inverse a))"
| "inverse_jsnum NaN = NaN"

instance ..

end

text \<open>\<^verbatim>\<open>a < b\<close> on numbers: false as soon as one side is not a number.\<close>

fun lt :: "jsnum \<Rightarrow> jsnum \<Rightarrow> bool" where
  "lt (Num a) (Num b) = (a < b)"
| "lt _ _ = False"

fun truthy :: "jsnum \<Rightarrow> bool" where
  "truthy (Num a) = (a \<noteq> 0)"
| "truthy NaN = False"

text \<open>\<^verbatim>\<open>Math.round\<close> rounds to the nearest integer, a tie going up.\<close>

definition round_half_up :: "rat \<Rightarrow> rat" where
  "round_half_up x = of_int \<lfloor>x + 1 / 2\<rfloor>"

fun Math_round :: "jsnum \<Rightarrow> jsnum" where
  "Math_round (Num a) = Num (round_half_up a)"
| "Math_round NaN = NaN"

fun Math_max :: "jsnum \<Rightarrow> jsnum \<Rightarrow> jsnum" where
  "Math_max (Num a) (Num b) = Num (max a b)"
| "Math_max _ _ = NaN"

fun Math_min :: "jsnum \<Rightarrow> jsnum \<Rightarrow> jsnum" where
  "Math_min (Num a) (Num b) = Num (min a b)"
| "Math_min _ _ = NaN"

fun Math_abs :: "jsnum \<Rightarrow> jsnum" where
  "Math_abs (Num a) = Num \<bar>a\<bar>"
| "Math_abs NaN = NaN"

text \<open>\<^verbatim>\<open>Number(x.toFixed(2))\<close>: two decimals, a tie going up. The source
  applies it to values that are not negative.\<close>

definition toFixed2 :: "rat \<Rightarrow> rat" where
  "toFixed2 x = of_int \<lfloor>x * 100 + 1 / 2\<rfloor> / 100"

fun toFixed2_num :: "jsnum \<Rightarrow> jsnum" where
  "toFixed2_num (Num a) = Num (toFixed2 a)"
| "toFixed2_num NaN = NaN"

text \<open>\<^verbatim>\<open>x || 0\<close> on an optional number.\<close>

fun or_zero :: "rat option \<Rightarrow> rat" where
  "or_zero None = 0"
| "or_zero (Some x) = x"

text \<open>Strings are byte strings; \<^verbatim>\<open>toLowerCase\<close> acts on the ASCII letters,
  the only letters of the role names and performance labels the source compares with.\<close>

definition lower_char :: "char \<Rightarrow> char" where
  "lower_char c =
     (case map_of (zip ''ABCDEFGHIJKLMNOPQRSTUVWXYZ'' ''abcdefghijklmnopqrstuvwxyz'') c of
        Some l \<Rightarrow> l
      | None \<Rightarrow> c)"

definition toLowerCase :: "string \<Rightarrow> string" where
  "toLowerCase s = map lower_char s"

text \<open>\<^verbatim>\<open>s.includes(t)\<close>: \<open>t\<close> occurs in \<open>s\<close> as a contiguous substring.\<close>

fun str_includes :: "string \<Rightarrow> string \<Rightarrow> bool" where
  "str_includes [] t = (t = [])"
| "str_includes (c # cs) t = (take (length t) (c # cs) = t \<or> str_includes cs t)"

text \<open>
  Reading a property of an object literal: an own key gives its value; a name that the
  literal inherits from \<^verbatim>\<open>Object.prototype\<close> gives the inherited member,
  which is a truthy object and not a table entry; any other name gives
  \<^verbatim>\<open>undefined\<close>.
\<close>

datatype 'a jsprop = Own 'a | Inherited | Undefined

definition Object_prototype_names :: "string list" where
  "Object_prototype_names =
     [''constructor'', ''__proto__'', ''hasOwnProperty'', ''isPrototypeOf'',
      ''propertyIsEnumerable'', ''toLocaleString'', ''toString'', ''valueOf'',
      ''__defineGetter__'', ''__defineSetter__'', ''__lookupGetter__'', ''__lookupSetter__'']"

definition get_prop :: "(string \<times> 'a) list \<Rightarrow> string \<Rightarrow> 'a jsprop" where
  "get_prop obj k =
     (case map_of obj k of
        Some v \<Rightarrow> Own v
      | None \<Rightarrow> if k \<in> set Object_prototype_names then Inherited else Undefined)"

section \<open>Market bands\<close>

record market_range =
  band_min :: rat
  band_mid :: rat
  band_max :: rat

definition band :: "rat \<Rightarrow> rat \<Rightarrow> rat \<Rightarrow> market_range" where
  "band lo md hi = \<lparr>band_min = lo, band_mid = md, band_max = hi\<rparr>"

definition MARKET_SALARY_RANGES :: "(string \<times> market_range) list" where
  "MARKET_SALARY_RANGES =
     [(''intern'', band 180000 300000 480000),
      (''junior'', band 360000 500000 700000),
      (''developer'', band 600000 1000000 1800000),
      (''engineer'', band 600000 1000000 1800000),
      (''senior developer'', band 1200000 1800000 2800000),
      (''senior engineer'', band 1200000 1800000 2800000),
      (''lead'', band 1500000 2200000 3500000),
      (''manager'', band 1200000 1800000 3000000),
      (''senior manager'', band 1800000 2500000 4000000),
      (''director'', band 2500000 4000000 6000000),
      (''sales'', band 400000 800000 1500000),
      (''unknown'', band 400000 700000 1200000)]"

text \<open>\<^verbatim>\<open>MARKET_SALARY_RANGES[role] || MARKET_SALARY_RANGES["unknown"]\<close>.\<close>

definition marketRange_of :: "string \<Rightarrow> market_range jsprop" where
  "marketRange_of r =
     (case get_prop MARKET_SALARY_RANGES r of
        Undefined \<Rightarrow> get_prop MARKET_SALARY_RANGES ''unknown''
      | p \<Rightarrow> p)"

text \<open>\<^verbatim>\<open>marketRange.min\<close> and its siblings, as used in arithmetic: an
  inherited member has no such field.\<close>

fun range_min :: "market_range jsprop \<Rightarrow> jsnum" where
  "range_min (Own b) = Num (band_min b)"
| "range_min _ = NaN"

fun range_mid :: "market_range jsprop \<Rightarrow> jsnum" where
  "range_mid (Own b) = Num (band_mid b)"
| "range_mid _ = NaN"

fun range_max :: "market_range jsprop \<Rightarrow> jsnum" where
  "range_max (Own b) = Num (band_max b)"
| "range_max _ = NaN"

section \<open>Employees and suggestions\<close>

text \<open>The performance field is of mixed type: a number, a text, or anything else
  (absent, null, a boolean, an object).\<close>

datatype perf = PNum rat | PText string | POther

text \<open>The heuristic's reason is a sentence built by a currency formatter from the
  estimated revenue, the estimated salary, the profit, the performance score, the
  experience and the budget; the model keeps these six values. The external service's
  reason is a text.\<close>

datatype reason_text =
  HeuristicReason jsnum jsnum jsnum rat rat "rat option"
| ReasonText string

record salary_factors =
  baseSalary :: jsnum
  perfMultiplier :: rat
  revenueBasedSalary :: rat
  budgetFactor :: rat

text \<open>A suggestion, as the heuristic builds it and as the external service's parsed
  object is read. A numeric field that is absent is \<open>NaN\<close>. The field
  \<open>usingTag\<close> is the source's \<^verbatim>\<open>using\<close>.\<close>

record suggestion =
  action :: "string option"
  confidence :: jsnum
  reason :: "reason_text option"
  recommended_change_percent :: jsnum
  currentSalary :: jsnum
  suggestedSalary :: jsnum
  salaryDifference :: jsnum
  salaryDifferencePercent :: jsnum
  salaryReason :: "string option"
  marketSalaryRange :: "market_range jsprop"
  salaryFactors :: "salary_factors option"
  estimatedRevenue :: jsnum
  profit :: jsnum
  usingTag :: "string option"

record employee =
  ssid :: string
  name :: "string option"
  performance :: perf
  experience :: "rat option"
  role :: "string option"
  salary :: "rat option"
  revenue :: "rat option"
  status :: string
  suggestion :: "suggestion option"
  lastAnalyzed :: "nat option"
  lastPromotedAt :: "nat option"
  terminatedAt :: "nat option"

section \<open>The heuristic scorer\<close>

text \<open>\<^verbatim>\<open>(emp.role || "unknown").toLowerCase()\<close>.\<close>

definition role_key :: "employee \<Rightarrow> string" where
  "role_key emp =
     toLowerCase (case role emp of None \<Rightarrow> ''unknown''
                  | Some r \<Rightarrow> if r = [] then ''unknown'' else r)"

text \<open>The performance score; \<^verbatim>\<open>calculateSuggestedSalary\<close> and
  \<^verbatim>\<open>heuristicAnalysis\<close> both open with these lines.\<close>

definition perfScore_of :: "perf \<Rightarrow> rat" where
  "perfScore_of perfRaw =
     (case perfRaw of
        PNum x \<Rightarrow> max 0 (min 10 x)
      | PText t \<Rightarrow>
          (let s = toLowerCase t in
           if str_includes s ''excel'' \<or> str_includes s ''ex'' then 9
           else if str_includes s ''good'' then 7
           else if str_includes s ''avg'' \<or> str_includes s ''average'' then 5
           else if str_includes s ''poor'' \<or> str_includes s ''low'' then 2
           else 5)
      | POther \<Rightarrow> 5)"

record salary_analysis =
  sa_suggestedSalary :: jsnum
  sa_salaryDifference :: jsnum
  sa_salaryDifferencePercent :: jsnum
  sa_marketRange :: "market_range jsprop"
  sa_factors :: salary_factors

definition budget_truthy :: "rat option \<Rightarrow> bool" where
  "budget_truthy budget = (case budget of None \<Rightarrow> False | Some b \<Rightarrow> b \<noteq> 0)"

text \<open>The base salary from the market range, piecewise in the experience.\<close>

definition baseSalary_of :: "market_range jsprop \<Rightarrow> rat \<Rightarrow> jsnum" where
  "baseSalary_of marketRange experience' =
     (if experience' \<le> 2 then
        range_min marketRange
          + (range_mid marketRange - range_min marketRange) * Num (experience' / 2)
      else if experience' \<le> 5 then
        range_mid marketRange
          + (range_max marketRange - range_mid marketRange) * Num ((experience' - 2) / 3)
              * Num (1 / 2)
      else
        range_mid marketRange
          + (range_max marketRange - range_mid marketRange)
              * Num (min 1 ((experience' - 2) / 8)))"

text \<open>The budget constraint factor.\<close>

definition budgetFactor_of :: "rat option \<Rightarrow> int \<Rightarrow> jsnum \<Rightarrow> rat" where
  "budgetFactor_of budget totalEmployees baseSalary' =
     (if budget_truthy budget \<and> totalEmployees > 0 then
        (let (avgBudgetPerEmployee :: rat) = or_zero budget / of_int totalEmployees in
         if lt (Num avgBudgetPerEmployee) (baseSalary' * Num (8 / 10)) then 85 / 100
         else if lt (baseSalary' * Num (15 / 10)) (Num avgBudgetPerEmployee) then 11 / 10
         else 1)
      else 1)"

text \<open>The weighted combination of the market path and the revenue path.\<close>

definition combine_factors :: "jsnum \<Rightarrow> rat \<Rightarrow> rat \<Rightarrow> jsnum" where
  "combine_factors baseSalary' perfMultiplier' revenueBasedSalary' =
     (if revenueBasedSalary' > 0 then
        baseSalary' * Num perfMultiplier' * Num (4 / 10) + Num (revenueBasedSalary' * (6 / 10))
      else baseSalary' * Num perfMultiplier')"

text \<open>Rounding to the nearest 1000 and bounding by the market range.\<close>

definition round_and_bound :: "market_range jsprop \<Rightarrow> jsnum \<Rightarrow> jsnum" where
  "round_and_bound marketRange constrained =
     Math_max (range_min marketRange * Num (9 / 10))
       (Math_min (range_max marketRange * Num (12 / 10))
          (Math_round (constrained / Num 1000) * Num 1000))"

definition calculateSuggestedSalary :: "employee \<Rightarrow> rat option \<Rightarrow> int \<Rightarrow> salary_analysis" where
  "calculateSuggestedSalary emp budget totalEmployees =
     (let (perfScore :: rat) = perfScore_of (performance emp);
          (experience' :: rat) = or_zero (experience emp);
          (currentSalary' :: rat) = or_zero (salary emp);
          (revenue' :: rat) = or_zero (revenue emp);
          (marketRange :: market_range jsprop) = marketRange_of (role_key emp);
          (baseSalary' :: jsnum) = baseSalary_of marketRange experience';
          (perfMultiplier' :: rat) = 8 / 10 + (perfScore / 10) * (4 / 10);
          (revenueBasedSalary' :: rat) = (if revenue' > 0 then revenue' * (1 - 4 / 10) else 0);
          (budgetFactor' :: rat) = budgetFactor_of budget totalEmployees baseSalary';
          (combined :: jsnum) = combine_factors baseSalary' perfMultiplier' revenueBasedSalary';
          (constrained :: jsnum) = combined * Num budgetFactor';
          (bounded :: jsnum) = round_and_bound marketRange constrained;
          (salaryDifference' :: jsnum) =
            (if currentSalary' > 0 then bounded - Num currentSalary' else Num 0);
          (salaryDifferencePercent' :: jsnum) =
            (if currentSalary' > 0
             then Math_round (salaryDifference' / Num currentSalary' * Num 100)
             else Num 0)
      in \<lparr>sa_suggestedSalary = Math_round bounded,
          sa_salaryDifference = salaryDifference',
          sa_salaryDifferencePercent = salaryDifferencePercent',
          sa_marketRange = marketRange,
          sa_factors =
            \<lparr>baseSalary = Math_round baseSalary',
             perfMultiplier = toFixed2 perfMultiplier',
             revenueBasedSalary = round_half_up revenueBasedSalary',
             budgetFactor = toFixed2 budgetFactor'\<rparr>\<rparr>)"

text \<open>The estimated revenue per role of \<^verbatim>\<open>heuristicAnalysis\<close>.\<close>

definition roleRevenue :: "(string \<times> rat) list" where
  "roleRevenue =
     [(''engineer'', 2000000),
      (''developer'', 2000000),
      (''senior developer'', 3500000),
      (''manager'', 4000000),
      (''sales'', 5000000),
      (''intern'', 200000),
      (''unknown'', 1200000)]"

fun prop_truthy :: "rat jsprop \<Rightarrow> bool" where
  "prop_truthy (Own v) = (v \<noteq> 0)"
| "prop_truthy Inherited = True"
| "prop_truthy Undefined = False"

fun prop_num :: "rat jsprop \<Rightarrow> jsnum" where
  "prop_num (Own v) = Num v"
| "prop_num _ = NaN"

text \<open>\<^verbatim>\<open>currentSalary || marketRange.mid\<close>.\<close>

definition estimatedSalary_of :: "employee \<Rightarrow> jsnum" where
  "estimatedSalary_of emp =
     (let currentSalary' = or_zero (salary emp) in
      if currentSalary' \<noteq> 0 then Num currentSalary'
      else range_mid (marketRange_of (role_key emp)))"

text \<open>\<^verbatim>\<open>emp.revenue || roleRevenue[role] || roleRevenue["unknown"]\<close>.\<close>

definition estimatedRevenue_of :: "employee \<Rightarrow> jsnum" where
  "estimatedRevenue_of emp =
     (if or_zero (revenue emp) \<noteq> 0 then Num (or_zero (revenue emp))
      else if prop_truthy (get_prop roleRevenue (role_key emp))
        then prop_num (get_prop roleRevenue (role_key emp))
      else prop_num (get_prop roleRevenue ''unknown''))"

definition profit_of :: "employee \<Rightarrow> jsnum" where
  "profit_of emp = estimatedRevenue_of emp - estimatedSalary_of emp"

definition heuristicAnalysis :: "employee \<Rightarrow> rat option \<Rightarrow> int \<Rightarrow> suggestion" where
  "heuristicAnalysis emp budget totalEmployees =
     (let (perfScore :: rat) = perfScore_of (performance emp);
          (experience' :: rat) = or_zero (experience emp);
          (currentSalary' :: rat) = or_zero (salary emp);
          (estimatedSalary :: jsnum) = estimatedSalary_of emp;
          (estimatedRevenue' :: jsnum) = estimatedRevenue_of emp;
          (profit' :: jsnum) = profit_of emp;
          (profitPerSalary :: jsnum) = profit' / Math_max (Num 1) estimatedSalary;
          (budgetFactor' :: rat) =
            (if budget_truthy budget then (if or_zero budget > 0 then 1 else 1 / 2) else 1);
          (score :: jsnum) =
            (profitPerSalary * Num 5 + Num ((perfScore - 5) * (1 / 2))
               + Num (min experience' 10 * (1 / 10)))
              * Num budgetFactor';
          (action' :: string) =
            (if perfScore \<le> 3 \<or> lt profit' (Num (- (2 / 10)) * estimatedSalary)
               then ''FIRE''
             else if perfScore \<ge> 8 \<and> lt (Num (2 / 10) * estimatedSalary) profit'
                     \<and> (\<not> budget_truthy budget
                          \<or> lt (estimatedSalary * Num (1 / 10)) (Num (or_zero budget)))
               then ''PROMOTE''
             else if lt profit' (Num (5 / 100) * estimatedSalary)
                     \<or> (budget_truthy budget \<and> or_zero budget < 0)
               then ''DECREASE_SALARY''
             else ''NO_CHANGE'');
          (confidence' :: jsnum) =
            Math_min (Num (95 / 100))
              (Math_max (Num (2 / 10)) (Num (5 / 10) + Math_abs score / Num 10));
          salaryAnalysis = calculateSuggestedSalary emp budget totalEmployees
      in \<lparr>action = Some action',
          confidence = toFixed2_num confidence',
          reason =
            Some (HeuristicReason estimatedRevenue' estimatedSalary profit' perfScore experience'
                    (if budget_truthy budget then budget else None)),
          recommended_change_percent =
            (if action' = ''PROMOTE'' then Num 10
             else if action' = ''DECREASE_SALARY'' then Num (- 10)
             else Num 0),
          currentSalary = (if currentSalary' \<noteq> 0 then Num currentSalary' else estimatedSalary),
          suggestedSalary = sa_suggestedSalary salaryAnalysis,
          salaryDifference = sa_salaryDifference salaryAnalysis,
          salaryDifferencePercent = sa_salaryDifferencePercent salaryAnalysis,
          salaryReason = None,
          marketSalaryRange = sa_marketRange salaryAnalysis,
          salaryFactors = Some (sa_factors salaryAnalysis),
          estimatedRevenue = estimatedRevenue',
          profit = profit',
          usingTag = None\<rparr>)"

section \<open>The external advisor and the orchestrator\<close>

text \<open>
  The external service is outside the program: what the request gives back is an input
  of the model. \<open>HttpError\<close> is a rejected request (no network, a status that is not
  a success, a response without the expected envelope); \<open>HttpOk content\<close> carries the
  message content, which may be absent. \<^verbatim>\<open>JSON.parse\<close> is a parameter: it
  gives \<open>None\<close> where it throws, and otherwise null, a value without fields (a
  number, a text, a boolean, an array) or an object read at the keys of a suggestion.
\<close>

datatype http_result = HttpError | HttpOk "string option"

datatype json_value = JNull | JOther | JObject suggestion

datatype ai_value = Primitive | Object suggestion

record env =
  OPENAI_KEY :: "string option"
  JSON_parse :: "string \<Rightarrow> json_value option"

fun indexOf :: "string \<Rightarrow> char \<Rightarrow> nat option" where
  "indexOf [] c = None"
| "indexOf (x # xs) c = (if x = c then Some 0 else map_option Suc (indexOf xs c))"

definition lastIndexOf :: "string \<Rightarrow> char \<Rightarrow> nat option" where
  "lastIndexOf s c = map_option (\<lambda>i. length s - 1 - i) (indexOf (rev s) c)"

text \<open>\<^verbatim>\<open>text.slice(a, b)\<close> for indices within the text.\<close>

definition slice :: "string \<Rightarrow> nat \<Rightarrow> nat \<Rightarrow> string" where
  "slice s a b = take (b - a) (drop a s)"

definition extract_json :: "string \<Rightarrow> string" where
  "extract_json text' =
     (case (indexOf text' CHR ''{'', lastIndexOf text' CHR ''}'') of
        (Some firstBrace, Some lastBrace) \<Rightarrow> slice text' firstBrace (lastBrace + 1)
      | _ \<Rightarrow> text')"

text \<open>The three steps of \<^verbatim>\<open>callOpenAI\<close> on the parsed object: the market
  range and the current salary are attached; a suggested salary that is truthy and below
  10000 is replaced by the calculated one, with a note appended to the salary reason; the
  differences are computed when both the suggested salary and the employee's salary are
  truthy.\<close>

definition attach_context :: "employee \<Rightarrow> suggestion \<Rightarrow> suggestion" where
  "attach_context employee' parsed =
     parsed\<lparr>marketSalaryRange := marketRange_of (role_key employee'),
            currentSalary := Num (or_zero (salary employee'))\<rparr>"

definition sanity_correction :: "salary_analysis \<Rightarrow> suggestion \<Rightarrow> suggestion" where
  "sanity_correction salaryAnalysis parsed =
     (if truthy (suggestedSalary parsed) \<and> lt (suggestedSalary parsed) (Num 10000)
      then parsed\<lparr>suggestedSalary := sa_suggestedSalary salaryAnalysis,
                  salaryReason :=
                    Some ((case salaryReason parsed of None \<Rightarrow> [] | Some r \<Rightarrow> r)
                          @ '' (Salary calculated using market analysis)'')\<rparr>
      else parsed)"

definition recompute_difference :: "employee \<Rightarrow> suggestion \<Rightarrow> suggestion" where
  "recompute_difference employee' parsed =
     (if truthy (suggestedSalary parsed) \<and> or_zero (salary employee') \<noteq> 0
      then parsed\<lparr>salaryDifference :=
                    suggestedSalary parsed - Num (or_zero (salary employee')),
                  salaryDifferencePercent :=
                    Math_round
                      ((suggestedSalary parsed - Num (or_zero (salary employee')))
                         / Num (or_zero (salary employee')) * Num 100)\<rparr>
      else parsed)"

definition callOpenAI ::
  "env \<Rightarrow> http_result \<Rightarrow> employee \<Rightarrow> rat option \<Rightarrow> int \<Rightarrow> string + ai_value" where
  "callOpenAI e resp employee' budget totalEmployees =
     (let salaryAnalysis = calculateSuggestedSalary employee' budget totalEmployees
      in case resp of
           HttpError \<Rightarrow> Inl ''Request failed''
         | HttpOk content \<Rightarrow>
             (case content of
                None \<Rightarrow> Inl ''Empty response from OpenAI''
              | Some text' \<Rightarrow>
                  if text' = [] then Inl ''Empty response from OpenAI''
                  else
                    (case JSON_parse e (extract_json text') of
                       None \<Rightarrow> Inl ''SyntaxError''
                     | Some JNull \<Rightarrow> Inl ''TypeError''
                     | Some JOther \<Rightarrow> Inr Primitive
                     | Some (JObject parsed) \<Rightarrow>
                         Inr (Object
                                (recompute_difference employee'
                                   (sanity_correction salaryAnalysis
                                      (attach_context employee' parsed)))))))"

definition key_configured :: "env \<Rightarrow> bool" where
  "key_configured e = (case OPENAI_KEY e of None \<Rightarrow> False | Some k \<Rightarrow> k \<noteq> [])"

definition action_truthy :: "suggestion \<Rightarrow> bool" where
  "action_truthy s = (case action s of None \<Rightarrow> False | Some a \<Rightarrow> a \<noteq> [])"

definition analyzeEmployee ::
  "env \<Rightarrow> http_result \<Rightarrow> employee \<Rightarrow> rat option \<Rightarrow> int \<Rightarrow> suggestion" where
  "analyzeEmployee e resp employee' budget totalEmployees =
     (let heuristic = heuristicAnalysis employee' budget totalEmployees in
      if \<not> key_configured e then heuristic\<lparr>usingTag := Some ''heuristic''\<rparr>
      else
        (case callOpenAI e resp employee' budget totalEmployees of
           Inr (Object aiResp) \<Rightarrow>
             if action_truthy aiResp then aiResp\<lparr>usingTag := Some ''openai''\<rparr>
             else heuristic\<lparr>usingTag := Some ''heuristic''\<rparr>
         | Inr Primitive \<Rightarrow> heuristic\<lparr>usingTag := Some ''heuristic''\<rparr>
         | Inl msg \<Rightarrow> heuristic\<lparr>usingTag := Some ''heuristic''\<rparr>))"

section \<open>The batch analyzer\<close>

record result_item =
  r_ssid :: string
  r_name :: "string option"
  r_role :: "string option"
  r_currentSalary :: "rat option"
  r_suggestion :: suggestion

record action_breakdown =
  n_FIRE :: nat
  n_PROMOTE :: nat
  n_DECREASE_SALARY :: nat
  n_NO_CHANGE :: nat

record summary =
  s_totalEmployees :: nat
  companyBudget :: "rat option"
  totalCurrentSalaries :: rat
  totalSuggestedSalaries :: rat
  totalRevenue :: rat
  actionBreakdown :: action_breakdown
  projectedSavings :: rat
  currentProfitMargin :: rat
  projectedProfitMargin :: rat

text \<open>The loop over the employees; the \<open>i\<close>-th request to the service gets
  \<open>post i\<close> back.\<close>

fun analyze_loop ::
  "env \<Rightarrow> (nat \<Rightarrow> http_result) \<Rightarrow> rat option \<Rightarrow> int \<Rightarrow> nat \<Rightarrow> employee list
     \<Rightarrow> result_item list" where
  "analyze_loop e post budget totalEmployees i [] = []"
| "analyze_loop e post budget totalEmployees i (emp # emps) =
     \<lparr>r_ssid = ssid emp, r_name = name emp, r_role = role emp, r_currentSalary = salary emp,
      r_suggestion = analyzeEmployee e (post i) emp budget totalEmployees\<rparr>
     # analyze_loop e post budget totalEmployees (Suc i) emps"

fun num_or_zero :: "jsnum \<Rightarrow> rat" where
  "num_or_zero (Num x) = x"
| "num_or_zero NaN = 0"

definition count_action :: "string \<Rightarrow> result_item list \<Rightarrow> nat" where
  "count_action a results = length (filter (\<lambda>r. action (r_suggestion r) = Some a) results)"

definition analyzeAllEmployees ::
  "env \<Rightarrow> (nat \<Rightarrow> http_result) \<Rightarrow> employee list \<Rightarrow> rat option
     \<Rightarrow> result_item list \<times> summary" where
  "analyzeAllEmployees e post employees budget =
     (let totalEmployees = length employees;
          results = analyze_loop e post budget (int totalEmployees) 0 employees;
          (tcs :: rat) = foldl (\<lambda>sum e'. sum + or_zero (salary e')) 0 employees;
          (tss :: rat) =
            foldl (\<lambda>sum r. sum + num_or_zero (suggestedSalary (r_suggestion r))) 0 results;
          (tr :: rat) = foldl (\<lambda>sum e'. sum + or_zero (revenue e')) 0 employees
      in (results,
          \<lparr>s_totalEmployees = totalEmployees,
           companyBudget = budget,
           totalCurrentSalaries = tcs,
           totalSuggestedSalaries = tss,
           totalRevenue = tr,
           actionBreakdown =
             \<lparr>n_FIRE = count_action ''FIRE'' results,
              n_PROMOTE = count_action ''PROMOTE'' results,
              n_DECREASE_SALARY = count_action ''DECREASE_SALARY'' results,
              n_NO_CHANGE = count_action ''NO_CHANGE'' results\<rparr>,
           projectedSavings = tcs - tss,
           currentProfitMargin =
             (if tr > 0 then round_half_up ((1 - tcs / tr) * 100) else 0),
           projectedProfitMargin =
             (if tr > 0 then round_half_up ((1 - tss / tr) * 100) else 0)\<rparr>))"

section \<open>The stores and the exposed operations\<close>

text \<open>
  The two collections are lists of documents in insertion order. The store is taken to
  work: a write that the store rejects is not modelled. \<^verbatim>\<open>new Date()\<close> is
  the reading \<open>now\<close> of the clock, an input of each operation.
\<close>

record action_details =
  effect :: string
  previousSalary :: "rat option"
  newSalary :: "rat option"
  changePercent :: "rat option"
  previousStatus :: "string option"
  newStatus :: "string option"
  d_salary :: "rat option"

record action_record =
  a_ssid :: string
  a_action :: string
  a_note :: "string option"
  a_details :: action_details
  appliedAt :: nat

record db =
  Employee :: "employee list"
  Action :: "action_record list"

datatype http_error = BadRequest string | NotFound string

text \<open>\<^verbatim>\<open>Employee.findOne({ ssid })\<close> and \<^verbatim>\<open>emp.save()\<close>.\<close>

definition findOne :: "employee list \<Rightarrow> string \<Rightarrow> employee option" where
  "findOne docs s = find (\<lambda>e. ssid e = s) docs"

fun save :: "employee \<Rightarrow> employee list \<Rightarrow> employee list" where
  "save emp [] = []"
| "save emp (x # xs) = (if ssid x = ssid emp then emp # xs else x # save emp xs)"

text \<open>\<^verbatim>\<open>findOneAndUpdate\<close>: the first document with the identifier is
  updated; with \<^verbatim>\<open>upsert\<close> a missing document is created first.\<close>

definition new_employee :: "string \<Rightarrow> employee" where
  "new_employee s =
     \<lparr>ssid = s, name = None, performance = POther, experience = None, role = None,
      salary = None, revenue = None, status = ''ACTIVE'', suggestion = None,
      lastAnalyzed = None, lastPromotedAt = None, terminatedAt = None\<rparr>"

definition findOneAndUpdate ::
  "bool \<Rightarrow> string \<Rightarrow> (employee \<Rightarrow> employee) \<Rightarrow> employee list \<Rightarrow> employee list" where
  "findOneAndUpdate upsert s upd docs =
     (case findOne docs s of
        Some emp \<Rightarrow> save (upd emp) docs
      | None \<Rightarrow> if upsert then docs @ [upd (new_employee s)] else docs)"

subsection \<open>Employee upsert and bulk upsert\<close>

text \<open>The fields of a request body; a field left out of the body keeps its stored
  value. Only the bulk route reads \<open>in_status\<close>.\<close>

record employee_input =
  in_ssid :: "string option"
  in_name :: "string option"
  in_performance :: "perf option"
  in_experience :: "rat option"
  in_role :: "string option"
  in_salary :: "rat option"
  in_revenue :: "rat option"
  in_status :: "string option"

definition keep :: "'a option \<Rightarrow> 'a option \<Rightarrow> 'a option" where
  "keep new old = (case new of None \<Rightarrow> old | Some v \<Rightarrow> Some v)"

definition set_fields :: "employee_input \<Rightarrow> employee \<Rightarrow> employee" where
  "set_fields body emp =
     emp\<lparr>name := keep (in_name body) (name emp),
         performance := (case in_performance body of None \<Rightarrow> performance emp | Some p \<Rightarrow> p),
         experience := keep (in_experience body) (experience emp),
         role := keep (in_role body) (role emp),
         salary := keep (in_salary body) (salary emp),
         revenue := keep (in_revenue body) (revenue emp)\<rparr>"

definition str_truthy :: "string option \<Rightarrow> bool" where
  "str_truthy s = (case s of None \<Rightarrow> False | Some t \<Rightarrow> t \<noteq> [])"

text \<open>\<^verbatim>\<open>POST /employees\<close>.\<close>

definition upsertEmployee :: "db \<Rightarrow> employee_input \<Rightarrow> http_error + db" where
  "upsertEmployee d body =
     (case in_ssid body of
        None \<Rightarrow> Inl (BadRequest ''ssid is required'')
      | Some s \<Rightarrow>
          if s = [] then Inl (BadRequest ''ssid is required'')
          else Inr (d\<lparr>Employee :=
                       findOneAndUpdate True s
                         (\<lambda>emp. (set_fields body emp)\<lparr>status := ''ACTIVE''\<rparr>) (Employee d)\<rparr>))"

text \<open>\<^verbatim>\<open>POST /employees/bulk\<close>: an item without identifier is skipped.\<close>

fun bulkUpsert :: "db \<Rightarrow> employee_input list \<Rightarrow> db" where
  "bulkUpsert d [] = d"
| "bulkUpsert d (emp # rest) =
     (case in_ssid emp of
        None \<Rightarrow> bulkUpsert d rest
      | Some s \<Rightarrow>
          if s = [] then bulkUpsert d rest
          else bulkUpsert
                 (d\<lparr>Employee :=
                      findOneAndUpdate True s
                        (\<lambda>doc. (set_fields emp doc)
                                 \<lparr>status := (if str_truthy (in_status emp)
                                             then (case in_status emp of Some t \<Rightarrow> t | None \<Rightarrow> [])
                                             else ''ACTIVE'')\<rparr>)
                        (Employee d)\<rparr>)
                 rest)"

subsection \<open>Analyze\<close>

record analyze_request =
  req_budget :: "rat option"
  req_ssids :: "string list option"

text \<open>The query of \<^verbatim>\<open>POST /analyze\<close>: not fired, and among the given
  identifiers when some are given.\<close>

definition analyze_query :: "analyze_request \<Rightarrow> employee \<Rightarrow> bool" where
  "analyze_query req emp =
     (status emp \<noteq> ''FIRED''
      \<and> (case req_ssids req of
           None \<Rightarrow> True
         | Some l \<Rightarrow> if l \<noteq> [] then ssid emp \<in> set l else True))"

fun save_suggestions :: "nat \<Rightarrow> result_item list \<Rightarrow> employee list \<Rightarrow> employee list" where
  "save_suggestions now [] docs = docs"
| "save_suggestions now (r # rs) docs =
     save_suggestions now rs
       (findOneAndUpdate False (r_ssid r)
          (\<lambda>emp. emp\<lparr>suggestion := Some (r_suggestion r), lastAnalyzed := Some now\<rparr>) docs)"

definition analyze ::
  "env \<Rightarrow> (nat \<Rightarrow> http_result) \<Rightarrow> nat \<Rightarrow> db \<Rightarrow> analyze_request
     \<Rightarrow> http_error + (db \<times> result_item list \<times> summary)" where
  "analyze e post now d req =
     (case req_budget req of
        None \<Rightarrow> Inl (BadRequest ''budget is required'')
      | Some budget \<Rightarrow>
          (let selected = filter (analyze_query req) (Employee d) in
           if selected = [] then Inl (NotFound ''No employees found to analyze'')
           else
             (let analysis = analyzeAllEmployees e post selected (Some budget)
              in Inr (d\<lparr>Employee := save_suggestions now (fst analysis) (Employee d)\<rparr>,
                      fst analysis, snd analysis))))"

subsection \<open>Apply action\<close>

record action_request =
  req_ssid :: "string option"
  req_action :: "string option"
  req_note :: "string option"
  req_changePercent :: "rat option"

record action_response =
  applied :: action_record
  resp_employee :: employee
  actionDetails :: action_details

definition validActions :: "string list" where
  "validActions = [''FIRE'', ''PROMOTE'', ''DECREASE_SALARY'', ''NO_CHANGE'']"

definition no_details :: action_details where
  "no_details =
     \<lparr>effect = [], previousSalary = None, newSalary = None, changePercent = None,
      previousStatus = None, newStatus = None, d_salary = None\<rparr>"

text \<open>\<^verbatim>\<open>emp.suggestion?.estimatedSalary\<close>: the suggestion schema has no such
  path, so the read gives \<^verbatim>\<open>undefined\<close> whatever the suggestion.\<close>

definition suggestion_estimatedSalary :: "suggestion option \<Rightarrow> jsnum" where
  "suggestion_estimatedSalary s = NaN"

definition salaryChangePercent_of :: "action_request \<Rightarrow> employee \<Rightarrow> string \<Rightarrow> rat" where
  "salaryChangePercent_of req emp action' =
     (case req_changePercent req of
        Some p \<Rightarrow> p
      | None \<Rightarrow>
          (let stored = (case suggestion emp of None \<Rightarrow> NaN
                         | Some s \<Rightarrow> recommended_change_percent s) in
           if truthy stored then num_or_zero stored
           else if action' = ''PROMOTE'' then 10
           else if action' = ''DECREASE_SALARY'' then - 10
           else 0))"

definition previousSalary_of :: "employee \<Rightarrow> rat" where
  "previousSalary_of emp =
     (if or_zero (salary emp) \<noteq> 0 then or_zero (salary emp)
      else if truthy (suggestion_estimatedSalary (suggestion emp))
        then num_or_zero (suggestion_estimatedSalary (suggestion emp))
      else 0)"

text \<open>The \<^verbatim>\<open>switch\<close> of \<^verbatim>\<open>POST /action\<close>: the changed employee
  and the effect details.\<close>

definition apply_switch ::
  "nat \<Rightarrow> string \<Rightarrow> rat \<Rightarrow> rat \<Rightarrow> employee \<Rightarrow> employee \<times> action_details" where
  "apply_switch now action' salaryChangePercent previousSalary' emp =
     (if action' = ''FIRE'' then
        (emp\<lparr>status := ''FIRED'', terminatedAt := Some now\<rparr>,
         no_details\<lparr>effect := ''Employee terminated'',
                    previousStatus := Some ''ACTIVE'',
                    newStatus := Some ''FIRED''\<rparr>)
      else if action' = ''PROMOTE'' then
        (let newSalary' = round_half_up (previousSalary' * (1 + salaryChangePercent / 100)) in
         (emp\<lparr>status := ''ACTIVE'', salary := Some newSalary', lastPromotedAt := Some now\<rparr>,
          no_details\<lparr>effect := ''Salary increased'',
                     previousSalary := Some previousSalary',
                     newSalary := Some newSalary',
                     changePercent := Some salaryChangePercent\<rparr>))
      else if action' = ''DECREASE_SALARY'' then
        (let newSalary' = round_half_up (previousSalary' * (1 + salaryChangePercent / 100)) in
         (emp\<lparr>status := ''ACTIVE'', salary := Some newSalary'\<rparr>,
          no_details\<lparr>effect := ''Salary decreased'',
                     previousSalary := Some previousSalary',
                     newSalary := Some newSalary',
                     changePercent := Some salaryChangePercent\<rparr>))
      else if action' = ''NO_CHANGE'' then
        (emp\<lparr>status := ''ACTIVE''\<rparr>,
         no_details\<lparr>effect := ''No changes made'', d_salary := Some previousSalary'\<rparr>)
      else (emp, no_details))"

text \<open>\<^verbatim>\<open>Action.create\<close> keeps the paths of the action schema, which has no
  \<^verbatim>\<open>details.salary\<close>.\<close>

definition Action_create ::
  "string \<Rightarrow> string \<Rightarrow> string option \<Rightarrow> action_details \<Rightarrow> nat \<Rightarrow> action_record" where
  "Action_create s action' note details now =
     \<lparr>a_ssid = s, a_action = action',
      a_note = (if str_truthy note then note else None),
      a_details = details\<lparr>d_salary := None\<rparr>,
      appliedAt = now\<rparr>"

definition applyAction ::
  "nat \<Rightarrow> db \<Rightarrow> action_request \<Rightarrow> http_error + (db \<times> action_response)" where
  "applyAction now d req =
     (if \<not> str_truthy (req_ssid req) \<or> \<not> str_truthy (req_action req)
        then Inl (BadRequest ''ssid and action are required'')
      else
        (let ssid' = (case req_ssid req of Some s \<Rightarrow> s | None \<Rightarrow> []);
             action' = (case req_action req of Some a \<Rightarrow> a | None \<Rightarrow> [])
         in if action' \<notin> set validActions
              then Inl (BadRequest ''action must be one of: FIRE, PROMOTE, DECREASE_SALARY, NO_CHANGE'')
            else
              (case findOne (Employee d) ssid' of
                 None \<Rightarrow> Inl (NotFound ''Employee not found'')
               | Some emp \<Rightarrow>
                   (let salaryChangePercent = salaryChangePercent_of req emp action';
                        previousSalary' = previousSalary_of emp;
                        changed = apply_switch now action' salaryChangePercent previousSalary' emp;
                        actionRecord =
                          Action_create ssid' action' (req_note req) (snd changed) now
                    in Inr (d\<lparr>Employee := save (fst changed) (Employee d),
                               Action := Action d @ [actionRecord]\<rparr>,
                            \<lparr>applied = actionRecord,
                             resp_employee = fst changed,
                             actionDetails = snd changed\<rparr>)))))"

section \<open>Reference definitions and concrete inputs\<close>


definition blank_suggestion :: suggestion where
  "blank_suggestion =
     \<lparr>action = None, confidence = NaN, reason = None, recommended_change_percent = NaN,
      currentSalary = NaN, suggestedSalary = NaN, salaryDifference = NaN,
      salaryDifferencePercent = NaN, salaryReason = None, marketSalaryRange = Undefined,
      salaryFactors = None, estimatedRevenue = NaN, profit = NaN, usingTag = None\<rparr>"

text \<open>An employee that was fired at time 1, and the request to fire it again.\<close>

definition fired_emp :: employee where
  "fired_emp = (new_employee ''e1'')\<lparr>status := ''FIRED'', terminatedAt := Some 1\<rparr>"

definition fired_db :: db where
  "fired_db = \<lparr>Employee = [fired_emp], Action = []\<rparr>"








text \<open>A well performing employee whose salary far exceeds the attributed revenue.\<close>

definition unprofitable_emp :: employee where
  "unprofitable_emp =
     (new_employee ''e4'')
       \<lparr>performance := PNum 9, role := Some ''Engineer'', salary := Some 1000000,
        revenue := Some 100\<rparr>"

text \<open>Environments with a credential: one whose responses never parse, one whose
  responses parse to a suggestion in an abbreviated unit, one whose responses carry an
  action outside the four.\<close>

definition env_unparsable :: env where
  "env_unparsable = \<lparr>OPENAI_KEY = Some ''sk'', JSON_parse = (\<lambda>t. None)\<rparr>"



definition hold_payload :: suggestion where
  "hold_payload = blank_suggestion\<lparr>action := Some ''HOLD'', suggestedSalary := Num 650000\<rparr>"

definition env_hold :: env where
  "env_hold = \<lparr>OPENAI_KEY = Some ''sk'', JSON_parse = (\<lambda>t. Some (JObject hold_payload))\<rparr>"

definition env_no_key :: env where
  "env_no_key = \<lparr>OPENAI_KEY = None, JSON_parse = (\<lambda>t. None)\<rparr>"

definition salaried_emp :: employee where
  "salaried_emp = (new_employee ''e5'')\<lparr>salary := Some 500000\<rparr>"

definition breakdown_total :: "summary \<Rightarrow> nat" where
  "breakdown_total s =
     n_FIRE (actionBreakdown s) + n_PROMOTE (actionBreakdown s)
       + n_DECREASE_SALARY (actionBreakdown s) + n_NO_CHANGE (actionBreakdown s)"

text \<open>A service that answers every request with the same text.\<close>

definition post_braces :: "nat \<Rightarrow> http_result" where
  "post_braces i = HttpOk (Some ''{}'')"

definition post_fails :: "nat \<Rightarrow> http_result" where
  "post_fails i = HttpError"

text \<open>A store with a fired and an active employee; a request body that names the
  fired one and gives no status.\<close>

definition mixed_db :: db where
  "mixed_db = \<lparr>Employee = [fired_emp, salaried_emp], Action = []\<rparr>"

definition rehire_body :: employee_input where
  "rehire_body =
     \<lparr>in_ssid = Some ''e1'', in_name = None, in_performance = None, in_experience = None,
      in_role = None, in_salary = None, in_revenue = None, in_status = None\<rparr>"

definition keep_req :: action_request where
  "keep_req =
     \<lparr>req_ssid = Some ''e1'', req_action = Some ''NO_CHANGE'', req_note = None,
      req_changePercent = None\<rparr>"

definition budget_req :: analyze_request where
  "budget_req = \<lparr>req_budget = Some 1000000, req_ssids = None\<rparr>"



definition unknown_band :: market_range where
  "unknown_band = band 400000 700000 1200000"

definition spec_band :: "string option \<Rightarrow> market_range" where
  "spec_band r =
     (case r of
        None \<Rightarrow> unknown_band
      | Some t \<Rightarrow>
          (case map_of MARKET_SALARY_RANGES (toLowerCase t) of
             Some b \<Rightarrow> b
           | None \<Rightarrow> unknown_band))"

definition interpolate :: "rat \<Rightarrow> rat \<Rightarrow> rat \<Rightarrow> rat" where
  "interpolate a b t = a + (b - a) * t"

definition spec_base :: "market_range \<Rightarrow> rat \<Rightarrow> rat" where
  "spec_base b x =
     (if x \<le> 2 then interpolate (band_min b) (band_mid b) (x / 2)
      else if x \<le> 5 then
        interpolate (band_mid b) (band_mid b + (1 / 2) * (band_max b - band_mid b)) ((x - 2) / 3)
      else interpolate (band_mid b) (band_max b) (min 1 ((x - 2) / 8)))"


definition nearest_multiple :: "rat \<Rightarrow> rat \<Rightarrow> rat" where
  "nearest_multiple m x = m * of_int \<lfloor>x / m + 1 / 2\<rfloor>"

definition clamp :: "rat \<Rightarrow> rat \<Rightarrow> rat \<Rightarrow> rat" where
  "clamp lo hi x = (if x < lo then lo else if x > hi then hi else x)"




text \<open>An employee whose role is the name of a member that every object inherits.\<close>

definition constructor_emp :: employee where
  "constructor_emp = (new_employee ''e6'')\<lparr>role := Some ''constructor''\<rparr>"

text \<open>The end-to-end scenario of the specification: an engineer with performance 9,
  six years of experience, a salary of 1,000,000 and a revenue of 3,000,000.\<close>

definition scenario_emp :: employee where
  "scenario_emp =
     (new_employee ''e7'')
       \<lparr>performance := PNum 9, experience := Some 6, role := Some ''engineer'',
        salary := Some 1000000, revenue := Some 3000000\<rparr>"

section \<open>Helper lemmas on the stores\<close>

lemma findOne_ssid: "findOne docs s = Some emp \<Longrightarrow> ssid emp = s"
  unfolding findOne_def by (induction docs) (auto split: if_splits)

lemma findOne_save:
  "findOne docs s = Some emp \<Longrightarrow> ssid emp' = s \<Longrightarrow> findOne (save emp' docs) s = Some emp'"
  unfolding findOne_def by (induction docs) (auto split: if_splits)

lemma apply_switch_ssid: "ssid (fst (apply_switch now a p prev emp)) = ssid emp"
  by (simp add: apply_switch_def Let_def)

lemma applyAction_found:
  assumes "findOne (Employee d) s = Some emp" "req_ssid req = Some s" "s \<noteq> []"
    "req_action req = Some a" "a \<in> set validActions"
  shows "applyAction now d req =
     (let changed = apply_switch now a (salaryChangePercent_of req emp a) (previousSalary_of emp) emp;
          actionRecord = Action_create s a (req_note req) (snd changed) now
      in Inr (d\<lparr>Employee := save (fst changed) (Employee d), Action := Action d @ [actionRecord]\<rparr>,
              \<lparr>applied = actionRecord, resp_employee = fst changed, actionDetails = snd changed\<rparr>))"
proof -
  have "a \<noteq> []" using assms(5) by (auto simp: validActions_def)
  then show ?thesis using assms
    by (simp add: applyAction_def str_truthy_def Let_def)
qed


section \<open>Claims on the action state machine\<close>




section \<open>Helper lemmas on rounding\<close>

lemma round_half_up_of_int: "round_half_up (of_int k) = of_int k"
proof -
  have "\<lfloor>(of_int k :: rat) + 1 / 2\<rfloor> = k" by (rule floor_unique) simp_all
  then show ?thesis by (simp add: round_half_up_def)
qed



section \<open>Claims on the promotion and on the defaults of an applied action\<close>






section \<open>Claims on the orchestrator and the decision thresholds\<close>

lemma callOpenAI_failures:
  "resp = HttpError \<or> resp = HttpOk None \<or> resp = HttpOk (Some [])
   \<or> (\<exists>t. resp = HttpOk (Some t) \<and> JSON_parse e (extract_json t) = None)
   \<or> (\<exists>t. resp = HttpOk (Some t) \<and> JSON_parse e (extract_json t) = Some JNull)
   \<Longrightarrow> \<exists>msg. callOpenAI e resp emp budget n = Inl msg"
  by (auto simp: callOpenAI_def Let_def)

lemma callOpenAI_object:
  "callOpenAI e resp emp budget n = Inr (Object r) \<Longrightarrow>
   \<exists>t p. resp = HttpOk (Some t) \<and> t \<noteq> [] \<and> JSON_parse e (extract_json t) = Some (JObject p)
     \<and> action r = action p"
  by (auto simp: callOpenAI_def Let_def recompute_difference_def sanity_correction_def
      attach_context_def split: http_result.splits option.splits if_splits json_value.splits)

lemma analyzeEmployee_cases:
  "analyzeEmployee e resp emp budget n = (heuristicAnalysis emp budget n)\<lparr>usingTag := Some ''heuristic''\<rparr>
   \<or> (\<exists>r. key_configured e \<and> callOpenAI e resp emp budget n = Inr (Object r) \<and> action_truthy r
          \<and> analyzeEmployee e resp emp budget n = r\<lparr>usingTag := Some ''openai''\<rparr>)"
  by (auto simp: analyzeEmployee_def Let_def split: sum.splits ai_value.splits)

text \<open>
  Claim C2. When no credential is configured, or the request to the external service
  fails, or its response is empty, or the extracted text does not parse, or it parses to
  null or to a value without fields, or the parsed object has no action, the orchestrator
  returns the heuristic suggestion for the same inputs with the path tag
  \<open>heuristic\<close>. The orchestrator is a total function into suggestions: a failure of the
  external call, an error value of \<open>callOpenAI\<close>, never reaches its caller.
\<close>

theorem orchestrator_falls_back:
  "\<not> key_configured e
   \<or> resp = HttpError \<or> resp = HttpOk None \<or> resp = HttpOk (Some [])
   \<or> (\<exists>t. resp = HttpOk (Some t) \<and> JSON_parse e (extract_json t) = None)
   \<or> (\<exists>t. resp = HttpOk (Some t) \<and> JSON_parse e (extract_json t) = Some JNull)
   \<or> (\<exists>t. resp = HttpOk (Some t) \<and> JSON_parse e (extract_json t) = Some JOther)
   \<or> (\<exists>t p. resp = HttpOk (Some t) \<and> JSON_parse e (extract_json t) = Some (JObject p)
          \<and> \<not> action_truthy p)
   \<longrightarrow> analyzeEmployee e resp emp budget n
         = (heuristicAnalysis emp budget n)\<lparr>usingTag := Some ''heuristic''\<rparr>"
proof -
  consider (h) "analyzeEmployee e resp emp budget n
                  = (heuristicAnalysis emp budget n)\<lparr>usingTag := Some ''heuristic''\<rparr>"
    | (ai) r where "key_configured e" "callOpenAI e resp emp budget n = Inr (Object r)"
        "action_truthy r"
    using analyzeEmployee_cases [of e resp emp budget n] by blast
  then show ?thesis
  proof cases
    case h
    then show ?thesis by simp
  next
    case ai
    from callOpenAI_object [OF ai(2)] obtain t p where
      tp: "resp = HttpOk (Some t)" "t \<noteq> []" "JSON_parse e (extract_json t) = Some (JObject p)"
        "action r = action p"
      by blast
    have "action_truthy p" using ai(3) tp(4) by (simp add: action_truthy_def)
    with ai(1) tp show ?thesis by auto
  qed
qed

theorem orchestrator_falls_back_witness:
  "analyzeEmployee env_unparsable (HttpOk (Some ''I cannot answer'')) unprofitable_emp (Some 5000000) 3
     = (heuristicAnalysis unprofitable_emp (Some 5000000) 3)\<lparr>usingTag := Some ''heuristic''\<rparr>
   \<and> analyzeEmployee env_no_key HttpError unprofitable_emp None 1
     = (heuristicAnalysis unprofitable_emp None 1)\<lparr>usingTag := Some ''heuristic''\<rparr>"
  using orchestrator_falls_back [of env_unparsable "HttpOk (Some ''I cannot answer'')"
          unprofitable_emp "Some 5000000" 3]
        orchestrator_falls_back [of env_no_key HttpError unprofitable_emp None 1]
  by (simp add: env_unparsable_def env_no_key_def key_configured_def)






section \<open>Claims on the external advisor\<close>


lemma heuristic_suggestedSalary:
  "suggestedSalary (heuristicAnalysis emp budget n)
     = sa_suggestedSalary (calculateSuggestedSalary emp budget n)"
  by (simp add: heuristicAnalysis_def Let_def)








section \<open>Claims on the batch analyzer\<close>

lemma foldl_plus_sum_list:
  "foldl (\<lambda>acc x. acc + f x) (a :: rat) xs = a + sum_list (map f xs)"
  by (induction xs arbitrary: a) simp_all

lemma length_analyze_loop: "length (analyze_loop e post budget n i emps) = length emps"
  by (induction emps arbitrary: i) simp_all

lemma count_partition:
  "count_action ''FIRE'' rs + count_action ''PROMOTE'' rs
     + count_action ''DECREASE_SALARY'' rs + count_action ''NO_CHANGE'' rs
   = length (filter (\<lambda>r. action (r_suggestion r) \<in> Some ` set validActions) rs)"
  by (induction rs) (auto simp: count_action_def validActions_def)

lemma heuristic_action_valid:
  "action (heuristicAnalysis emp budget n) \<in> Some ` set validActions"
  by (simp add: heuristicAnalysis_def Let_def validActions_def)

lemma analyze_loop_heuristic:
  "\<not> key_configured e \<Longrightarrow> r \<in> set (analyze_loop e post budget n i emps)
   \<Longrightarrow> action (r_suggestion r) \<in> Some ` set validActions"
proof (induction emps arbitrary: i)
  case Nil
  then show ?case by simp
next
  case (Cons emp emps)
  from Cons.prems(2) consider
    (hd) "r_suggestion r = analyzeEmployee e (post i) emp budget n"
    | (tl) "r \<in> set (analyze_loop e post budget n (Suc i) emps)"
    by auto
  then show ?case
  proof cases
    case hd
    then show ?thesis
      using Cons.prems(1) heuristic_action_valid [of emp budget n]
      by (simp add: analyzeEmployee_def Let_def)
  next
    case tl
    then show ?thesis using Cons.IH Cons.prems(1) by blast
  qed
qed

text \<open>
  Claim C8, as stated, fails in its second part: the orchestrator takes any non-empty
  action text of the external service, and a result whose action is none of the four is
  counted in no entry of the breakdown. One employee, one response with the action HOLD:
  the breakdown sums to 0, the total of employees is 1.
\<close>

theorem unrecognized_action_counterexample:
  "s_totalEmployees (snd (analyzeAllEmployees env_hold post_braces [new_employee ''e5''] None)) = 1
   \<and> breakdown_total (snd (analyzeAllEmployees env_hold post_braces [new_employee ''e5''] None))
       = 0"
  by code_simp

text \<open>
  Claim C8, amended. For every employee list and budget, the projected savings are the
  total of the current salaries minus the total of the suggested salaries, both summed
  with an unset value as 0; the total of employees is the number of employees analyzed;
  the four counts of the breakdown sum to the number of results whose action is one of
  the four values, so they sum to the total of employees whenever every result has such
  an action, in particular whenever no credential is configured.
\<close>

theorem batch_summary:
  "projectedSavings (snd (analyzeAllEmployees e post emps budget))
     = totalCurrentSalaries (snd (analyzeAllEmployees e post emps budget))
       - totalSuggestedSalaries (snd (analyzeAllEmployees e post emps budget))
   \<and> totalCurrentSalaries (snd (analyzeAllEmployees e post emps budget))
     = sum_list (map (\<lambda>x. or_zero (salary x)) emps)
   \<and> totalSuggestedSalaries (snd (analyzeAllEmployees e post emps budget))
     = sum_list (map (\<lambda>r. num_or_zero (suggestedSalary (r_suggestion r)))
                   (fst (analyzeAllEmployees e post emps budget)))
   \<and> s_totalEmployees (snd (analyzeAllEmployees e post emps budget)) = length emps
   \<and> length (fst (analyzeAllEmployees e post emps budget)) = length emps
   \<and> breakdown_total (snd (analyzeAllEmployees e post emps budget))
     = length (filter (\<lambda>r. action (r_suggestion r) \<in> Some ` set validActions)
                 (fst (analyzeAllEmployees e post emps budget)))
   \<and> ((\<forall>r \<in> set (fst (analyzeAllEmployees e post emps budget)).
          action (r_suggestion r) \<in> Some ` set validActions)
        \<longrightarrow> breakdown_total (snd (analyzeAllEmployees e post emps budget))
              = s_totalEmployees (snd (analyzeAllEmployees e post emps budget)))
   \<and> (\<not> key_configured e
        \<longrightarrow> breakdown_total (snd (analyzeAllEmployees e post emps budget))
              = s_totalEmployees (snd (analyzeAllEmployees e post emps budget)))"
proof -
  define rs where "rs = analyze_loop e post budget (int (length emps)) 0 emps"
  have f: "fst (analyzeAllEmployees e post emps budget) = rs"
    by (simp add: analyzeAllEmployees_def Let_def rs_def)
  have len: "length rs = length emps" by (simp add: rs_def length_analyze_loop)
  have bt: "breakdown_total (snd (analyzeAllEmployees e post emps budget))
              = length (filter (\<lambda>r. action (r_suggestion r) \<in> Some ` set validActions) rs)"
    using count_partition [of rs]
    by (simp add: analyzeAllEmployees_def Let_def breakdown_total_def rs_def)
  have te: "s_totalEmployees (snd (analyzeAllEmployees e post emps budget)) = length emps"
    by (simp add: analyzeAllEmployees_def Let_def)
  have all: "(\<forall>r \<in> set rs. action (r_suggestion r) \<in> Some ` set validActions)
      \<Longrightarrow> length (filter (\<lambda>r. action (r_suggestion r) \<in> Some ` set validActions) rs)
            = length emps"
    using len by (simp add: filter_True)
  have nokey: "\<not> key_configured e
      \<Longrightarrow> \<forall>r \<in> set rs. action (r_suggestion r) \<in> Some ` set validActions"
    unfolding rs_def using analyze_loop_heuristic by blast
  have sav: "projectedSavings (snd (analyzeAllEmployees e post emps budget))
     = totalCurrentSalaries (snd (analyzeAllEmployees e post emps budget))
       - totalSuggestedSalaries (snd (analyzeAllEmployees e post emps budget))"
    by (simp add: analyzeAllEmployees_def Let_def)
  have tcs: "totalCurrentSalaries (snd (analyzeAllEmployees e post emps budget))
     = sum_list (map (\<lambda>x. or_zero (salary x)) emps)"
    by (simp add: analyzeAllEmployees_def Let_def foldl_plus_sum_list)
  have tss: "totalSuggestedSalaries (snd (analyzeAllEmployees e post emps budget))
     = sum_list (map (\<lambda>r. num_or_zero (suggestedSalary (r_suggestion r))) rs)"
    by (simp add: analyzeAllEmployees_def Let_def foldl_plus_sum_list rs_def)
  show ?thesis
    unfolding f using sav tcs tss te len bt all nokey by simp
qed

theorem batch_summary_witness:
  "breakdown_total (snd (analyzeAllEmployees env_no_key post_fails
                           [unprofitable_emp, salaried_emp] (Some 2000000))) = 2
   \<and> totalCurrentSalaries (snd (analyzeAllEmployees env_no_key post_fails
                           [unprofitable_emp, salaried_emp] (Some 2000000))) = 1500000"
  using batch_summary [of env_no_key post_fails "[unprofitable_emp, salaried_emp]"
          "Some 2000000"]
  by (simp add: env_no_key_def key_configured_def unprofitable_emp_def salaried_emp_def
      new_employee_def)

section \<open>Claims on the status of an employee\<close>

lemma map_status_save: "status emp' = status emp \<Longrightarrow> findOne docs (ssid emp') = Some emp
  \<Longrightarrow> map status (save emp' docs) = map status docs"
  unfolding findOne_def by (induction docs) (auto split: if_splits)

lemma findOneAndUpdate_status:
  "(\<And>x. status (upd x) = status x) \<Longrightarrow> (\<And>x. ssid (upd x) = ssid x)
   \<Longrightarrow> map status (findOneAndUpdate False s upd docs) = map status docs"
proof -
  assume st: "\<And>x. status (upd x) = status x" and sid: "\<And>x. ssid (upd x) = ssid x"
  show ?thesis
  proof (cases "findOne docs s")
    case None
    then show ?thesis by (simp add: findOneAndUpdate_def)
  next
    case (Some emp)
    then have "ssid emp = s" by (rule findOne_ssid)
    then have "findOne docs (ssid (upd emp)) = Some emp" using Some sid by simp
    then have "map status (save (upd emp) docs) = map status docs"
      using st map_status_save by blast
    then show ?thesis using Some by (simp add: findOneAndUpdate_def)
  qed
qed

lemma save_suggestions_status:
  "map status (save_suggestions now rs docs) = map status docs"
proof (induction rs arbitrary: docs)
  case Nil
  then show ?case by simp
next
  case (Cons r rs)
  have "map status (findOneAndUpdate False (r_ssid r)
          (\<lambda>emp. emp\<lparr>suggestion := Some (r_suggestion r), lastAnalyzed := Some now\<rparr>) docs)
        = map status docs"
    by (rule findOneAndUpdate_status) simp_all
  then show ?case using Cons.IH by simp
qed

lemma map_r_ssid_analyze_loop:
  "map r_ssid (analyze_loop e post budget n i emps) = map ssid emps"
  by (induction emps arbitrary: i) simp_all

lemma findOne_append_new:
  "findOne docs s = None \<Longrightarrow> ssid emp = s \<Longrightarrow> findOne (docs @ [emp]) s = Some emp"
  unfolding findOne_def by (induction docs) (auto split: if_splits)

lemma findOne_upsert:
  "(\<And>x. ssid (upd x) = ssid x) \<Longrightarrow>
   \<exists>x. findOne (findOneAndUpdate True s upd docs) s = Some (upd x)"
proof -
  assume sid: "\<And>x. ssid (upd x) = ssid x"
  show ?thesis
  proof (cases "findOne docs s")
    case None
    have "ssid (upd (new_employee s)) = s" using sid by (simp add: new_employee_def)
    then show ?thesis using None findOne_append_new
      by (auto simp: findOneAndUpdate_def)
  next
    case (Some emp)
    then have "ssid (upd emp) = s" using sid findOne_ssid by simp
    then show ?thesis using Some findOne_save
      by (auto simp: findOneAndUpdate_def)
  qed
qed

lemma set_fields_ssid: "ssid (set_fields body emp) = ssid emp"
  by (simp add: set_fields_def)

text \<open>
  Claim C3, as stated, fails: a fired employee becomes active again by an employee
  upsert, and by applying NO_CHANGE (or PROMOTE, or DECREASE_SALARY), which is not
  refused for a fired employee.
\<close>

theorem reactivation_counterexample:
  "map status (Employee fired_db) = [''FIRED'']
   \<and> \<not> isl (upsertEmployee fired_db rehire_body)
   \<and> map status (Employee (projr (upsertEmployee fired_db rehire_body))) = [''ACTIVE'']
   \<and> \<not> isl (applyAction 5 fired_db keep_req)
   \<and> map status (Employee (fst (projr (applyAction 5 fired_db keep_req)))) = [''ACTIVE'']"
  by (simp add: fired_db_def fired_emp_def new_employee_def upsertEmployee_def rehire_body_def
      findOneAndUpdate_def findOne_def set_fields_def keep_def keep_req_def applyAction_def
      str_truthy_def validActions_def Let_def apply_switch_def)

text \<open>
  Claim C3, amended. Batch analysis selects only employees whose status is not FIRED and
  changes no status. Applying an action is not refused for a fired employee: when it
  succeeds, the employee's status is FIRED if the action is FIRE and ACTIVE for each of
  the other three actions, whatever the status before. An employee upsert sets the
  status ACTIVE whatever the status before; a bulk item sets its own status, and ACTIVE
  when it gives none. So the status goes from ACTIVE to FIRED only by the action FIRE,
  and it can go from FIRED back to ACTIVE.
\<close>

theorem status_transitions:
  "(\<forall>d' results s. analyze e post now d req = Inr (d', results, s) \<longrightarrow>
       map r_ssid results = map ssid (filter (analyze_query req) (Employee d))
       \<and> (\<forall>emp \<in> set (filter (analyze_query req) (Employee d)). status emp \<noteq> ''FIRED'')
       \<and> map status (Employee d') = map status (Employee d))
   \<and> (\<forall>d' r. applyAction now d areq = Inr (d', r) \<longrightarrow>
       (\<exists>emp s. req_ssid areq = Some s \<and> findOne (Employee d) s = Some emp
          \<and> findOne (Employee d') s = Some (resp_employee r))
       \<and> (req_action areq = Some ''FIRE'' \<longrightarrow> status (resp_employee r) = ''FIRED'')
       \<and> (req_action areq \<noteq> Some ''FIRE'' \<longrightarrow> status (resp_employee r) = ''ACTIVE''))
   \<and> (\<forall>d' s. upsertEmployee d body = Inr d' \<and> in_ssid body = Some s \<longrightarrow>
       map_option status (findOne (Employee d') s) = Some ''ACTIVE'')
   \<and> (\<forall>s. in_ssid body = Some s \<and> s \<noteq> [] \<longrightarrow>
       map_option status (findOne (Employee (bulkUpsert d [body])) s)
         = Some (if str_truthy (in_status body)
                 then (case in_status body of Some t \<Rightarrow> t | None \<Rightarrow> [])
                 else ''ACTIVE''))"
proof (intro conjI allI impI)
  fix d' results s
  assume a: "analyze e post now d req = Inr (d', results, s)"
  then obtain budget where b: "req_budget req = Some budget"
    by (auto simp: analyze_def split: option.splits)
  from a b have res: "results = fst (analyzeAllEmployees e post (filter (analyze_query req) (Employee d)) (Some budget))"
    and d': "d' = d\<lparr>Employee := save_suggestions now results (Employee d)\<rparr>"
    by (auto simp: analyze_def Let_def split: if_splits)
  show "map r_ssid results = map ssid (filter (analyze_query req) (Employee d))"
    unfolding res by (simp add: analyzeAllEmployees_def Let_def map_r_ssid_analyze_loop)
  show "\<forall>emp \<in> set (filter (analyze_query req) (Employee d)). status emp \<noteq> ''FIRED''"
    by (simp add: analyze_query_def)
  show "map status (Employee d') = map status (Employee d)"
    unfolding d' by (simp add: save_suggestions_status)
next
  fix d' r
  assume a: "applyAction now d areq = Inr (d', r)"
  then obtain s act emp where s: "req_ssid areq = Some s" "s \<noteq> []"
    and act: "req_action areq = Some act" "act \<in> set validActions"
    and emp: "findOne (Employee d) s = Some emp"
    by (auto simp: applyAction_def str_truthy_def Let_def split: option.splits if_splits)
  note run = applyAction_found [OF emp s act, of now]
  from a run have r: "resp_employee r
      = fst (apply_switch now act (salaryChangePercent_of areq emp act) (previousSalary_of emp) emp)"
    and d': "Employee d' = save (resp_employee r) (Employee d)"
    by (auto simp: Let_def)
  have sid: "ssid (resp_employee r) = s"
    unfolding r using emp findOne_ssid by (simp add: apply_switch_ssid)
  show "\<exists>emp s. req_ssid areq = Some s \<and> findOne (Employee d) s = Some emp
          \<and> findOne (Employee d') s = Some (resp_employee r)"
    using s emp sid d' findOne_save by auto
  show "status (resp_employee r) = ''FIRED''" if "req_action areq = Some ''FIRE''"
    using that act unfolding r by (simp add: apply_switch_def)
  show "status (resp_employee r) = ''ACTIVE''" if "req_action areq \<noteq> Some ''FIRE''"
    using that act unfolding r by (auto simp: apply_switch_def validActions_def Let_def)
next
  fix d' s
  assume a: "upsertEmployee d body = Inr d' \<and> in_ssid body = Some s"
  then have d': "Employee d' = findOneAndUpdate True s
      (\<lambda>emp. (set_fields body emp)\<lparr>status := ''ACTIVE''\<rparr>) (Employee d)"
    by (auto simp: upsertEmployee_def split: if_splits)
  have "\<exists>x. findOne (findOneAndUpdate True s
      (\<lambda>emp. (set_fields body emp)\<lparr>status := ''ACTIVE''\<rparr>) (Employee d)) s
       = Some ((set_fields body x)\<lparr>status := ''ACTIVE''\<rparr>)"
    by (rule findOne_upsert) (simp add: set_fields_ssid)
  then show "map_option status (findOne (Employee d') s) = Some ''ACTIVE''"
    unfolding d' by auto
next
  fix s
  assume a: "in_ssid body = Some s \<and> s \<noteq> []"
  let ?st = "(if str_truthy (in_status body)
                 then (case in_status body of Some t \<Rightarrow> t | None \<Rightarrow> [])
                 else ''ACTIVE'')"
  have "\<exists>x. findOne (findOneAndUpdate True s
      (\<lambda>doc. (set_fields body doc)\<lparr>status := ?st\<rparr>) (Employee d)) s
       = Some ((set_fields body x)\<lparr>status := ?st\<rparr>)"
    by (rule findOne_upsert) (simp add: set_fields_ssid)
  then show "map_option status (findOne (Employee (bulkUpsert d [body])) s) = Some ?st"
    using a by auto
qed

theorem status_transitions_witness:
  "map r_ssid (fst (snd (projr (analyze env_no_key post_fails 7 mixed_db budget_req)))) = [''e5'']
   \<and> map status (Employee (fst (projr (analyze env_no_key post_fails 7 mixed_db budget_req))))
       = [''FIRED'', ''ACTIVE'']
   \<and> status (resp_employee (snd (projr (applyAction 5 fired_db keep_req)))) = ''ACTIVE''
   \<and> map_option status (findOne (Employee (projr (upsertEmployee fired_db rehire_body))) ''e1'')
       = Some ''ACTIVE''
   \<and> map_option status (findOne (Employee (bulkUpsert fired_db [rehire_body])) ''e1'')
       = Some ''ACTIVE''"
proof -
  have "\<exists>x. analyze env_no_key post_fails 7 mixed_db budget_req = Inr x"
    by (simp add: analyze_def budget_req_def mixed_db_def analyze_query_def fired_emp_def
        salaried_emp_def new_employee_def Let_def)
  then obtain d' results s where
    a: "analyze env_no_key post_fails 7 mixed_db budget_req = Inr (d', results, s)"
    by (metis prod_cases3)
  have "\<exists>x. applyAction 5 fired_db keep_req = Inr x"
    by (simp add: applyAction_def keep_req_def fired_db_def fired_emp_def new_employee_def
        str_truthy_def validActions_def findOne_def Let_def)
  then obtain d2 r where b: "applyAction 5 fired_db keep_req = Inr (d2, r)"
    by (metis surj_pair)
  have "\<exists>x. upsertEmployee fired_db rehire_body = Inr x"
    by (simp add: upsertEmployee_def rehire_body_def)
  then obtain d3 where c: "upsertEmployee fired_db rehire_body = Inr d3"
    by blast
  note t = status_transitions [of env_no_key post_fails 7 mixed_db budget_req]
  note u = status_transitions [of env_no_key post_fails 5 fired_db budget_req keep_req rehire_body]
  from t a have
    "map r_ssid results = map ssid (filter (analyze_query budget_req) (Employee mixed_db))"
    "map status (Employee d') = map status (Employee mixed_db)"
    by blast+
  moreover from u b have "status (resp_employee r) = ''ACTIVE''"
    by (simp add: keep_req_def)
  moreover from u c have "map_option status (findOne (Employee d3) ''e1'') = Some ''ACTIVE''"
    by (simp add: rehire_body_def)
  moreover from u have
    "map_option status (findOne (Employee (bulkUpsert fired_db [rehire_body])) ''e1'')
       = Some ''ACTIVE''"
    by (simp add: rehire_body_def str_truthy_def)
  ultimately show ?thesis
    using a b c
    by (simp add: mixed_db_def analyze_query_def budget_req_def fired_emp_def salaried_emp_def
        new_employee_def)
qed

section \<open>Claims on the suggested salary\<close>




lemma lower_unknown: "toLowerCase ''unknown'' = ''unknown''"
  by (simp add: toLowerCase_def lower_char_def)

lemma unknown_entry: "map_of MARKET_SALARY_RANGES ''unknown'' = Some unknown_band"
  by (simp add: MARKET_SALARY_RANGES_def unknown_band_def)

lemma marketRange_band:
  assumes "role_key emp \<notin> set Object_prototype_names"
  shows "marketRange_of (role_key emp) = Own (spec_band (role emp))"
proof (cases "role emp")
  case None
  then have "role_key emp = ''unknown''" by (simp add: role_key_def lower_unknown)
  then show ?thesis using None
    by (simp add: marketRange_of_def get_prop_def unknown_entry spec_band_def)
next
  case (Some r)
  show ?thesis
  proof (cases "r = []")
    case True
    then have k: "role_key emp = ''unknown''" using Some by (simp add: role_key_def lower_unknown)
    have "map_of MARKET_SALARY_RANGES (toLowerCase []) = None"
      by (simp add: toLowerCase_def MARKET_SALARY_RANGES_def)
    then show ?thesis using Some True k
      by (simp add: marketRange_of_def get_prop_def unknown_entry spec_band_def)
  next
    case False
    then have k: "role_key emp = toLowerCase r" using Some by (simp add: role_key_def)
    show ?thesis using assms Some
      unfolding k
      by (simp add: marketRange_of_def get_prop_def unknown_entry spec_band_def
          split: option.splits)
  qed
qed

lemma table_band_facts:
  "map_of MARKET_SALARY_RANGES k = Some b \<Longrightarrow>
   (9 / 10) * band_min b \<in> \<int> \<and> (12 / 10) * band_max b \<in> \<int>
   \<and> (9 / 10) * band_min b \<le> (12 / 10) * band_max b"
  by (auto simp: MARKET_SALARY_RANGES_def band_def split: if_splits)

lemma spec_band_facts:
  "(9 / 10) * band_min (spec_band r) \<in> \<int> \<and> (12 / 10) * band_max (spec_band r) \<in> \<int>
   \<and> (9 / 10) * band_min (spec_band r) \<le> (12 / 10) * band_max (spec_band r)"
proof -
  have "\<exists>k. map_of MARKET_SALARY_RANGES k = Some (spec_band r)"
    using unknown_entry by (auto simp: spec_band_def split: option.splits)
  then show ?thesis using table_band_facts by blast
qed

lemma round_half_up_Ints: "x \<in> \<int> \<Longrightarrow> round_half_up x = x"
  by (auto simp: round_half_up_of_int elim!: Ints_cases)

lemma clamp_Ints: "lo \<in> \<int> \<Longrightarrow> hi \<in> \<int> \<Longrightarrow> x \<in> \<int> \<Longrightarrow> clamp lo hi x \<in> \<int>"
  by (simp add: clamp_def)

lemma clamp_max_min: "lo \<le> hi \<Longrightarrow> max lo (min hi x) = clamp lo hi x"
  by (simp add: clamp_def max_def min_def)

lemma nearest_multiple_1000: "round_half_up (x / 1000) * 1000 = nearest_multiple 1000 x"
  by (simp add: round_half_up_def nearest_multiple_def)

lemma nearest_multiple_Ints: "nearest_multiple 1000 x \<in> \<int>"
  by (simp add: nearest_multiple_def)

lemma baseSalary_Own: "baseSalary_of (Own b) x = Num (spec_base b x)"
proof -
  have "band_mid b + (band_max b - band_mid b) * ((x - 2) / 3) * (1 / 2)
          = band_mid b + (band_mid b + 1 / 2 * (band_max b - band_mid b) - band_mid b) * ((x - 2) / 3)"
    by (simp add: field_simps)
  then show ?thesis
    by (simp add: baseSalary_of_def spec_base_def interpolate_def)
qed



lemma round_and_bound_Own:
  assumes "(9 / 10) * band_min b \<in> \<int>" "(12 / 10) * band_max b \<in> \<int>"
    "(9 / 10) * band_min b \<le> (12 / 10) * band_max b"
  shows "round_and_bound (Own b) (Num x)
           = Num (clamp ((9 / 10) * band_min b) ((12 / 10) * band_max b) (nearest_multiple 1000 x))"
    and "Math_round (round_and_bound (Own b) (Num x)) = round_and_bound (Own b) (Num x)"
proof -
  have "round_and_bound (Own b) (Num x)
          = Num (max ((9 / 10) * band_min b)
                   (min ((12 / 10) * band_max b) (nearest_multiple 1000 x)))"
    by (simp add: round_and_bound_def nearest_multiple_def round_half_up_def)
  also have "\<dots> = Num (clamp ((9 / 10) * band_min b) ((12 / 10) * band_max b)
                        (nearest_multiple 1000 x))"
    by (simp only: clamp_max_min [OF assms(3)])
  finally show eq: "round_and_bound (Own b) (Num x)
           = Num (clamp ((9 / 10) * band_min b) ((12 / 10) * band_max b) (nearest_multiple 1000 x))" .
  have "clamp ((9 / 10) * band_min b) ((12 / 10) * band_max b) (nearest_multiple 1000 x) \<in> \<int>"
    using assms(1,2) nearest_multiple_Ints by (rule clamp_Ints)
  then have "round_half_up (clamp ((9 / 10) * band_min b) ((12 / 10) * band_max b)
                              (nearest_multiple 1000 x))
               = clamp ((9 / 10) * band_min b) ((12 / 10) * band_max b) (nearest_multiple 1000 x)"
    by (rule round_half_up_Ints)
  then show "Math_round (round_and_bound (Own b) (Num x)) = round_and_bound (Own b) (Num x)"
    by (simp only: eq Math_round.simps)
qed


lemma clamp_bounds:
  assumes "lo \<le> hi"
  shows "clamp lo hi x \<in> {lo..hi}"
  using assms by (simp add: clamp_def)

lemma combine_is_Num: "\<exists>x. combine_factors (Num base) pm rbs * Num f = Num x"
  by (simp add: combine_factors_def)

lemma suggested_salary_in_band:
  assumes "role_key emp \<notin> set Object_prototype_names"
  shows "\<exists>x. suggestedSalary (heuristicAnalysis emp budget n) = Num x
           \<and> (9 / 10) * band_min (spec_band (role emp)) \<le> x
           \<and> x \<le> (12 / 10) * band_max (spec_band (role emp))"
proof -
  define b where "b = spec_band (role emp)"
  have mr: "marketRange_of (role_key emp) = Own b"
    unfolding b_def by (rule marketRange_band [OF assms])
  from spec_band_facts [of "role emp"]
  have b1: "(9 / 10) * band_min b \<in> \<int>" and b2: "(12 / 10) * band_max b \<in> \<int>"
    and b3: "(9 / 10) * band_min b \<le> (12 / 10) * band_max b"
    unfolding b_def by simp_all
  note rb = round_and_bound_Own [OF b1 b2 b3]
  have "\<exists>x. sa_suggestedSalary (calculateSuggestedSalary emp budget n)
          = Math_round (round_and_bound (Own b) (Num x))"
    unfolding calculateSuggestedSalary_def Let_def mr baseSalary_Own
    by (simp only: salary_analysis.select_convs) (metis combine_is_Num)
  then obtain x where "suggestedSalary (heuristicAnalysis emp budget n)
          = Math_round (round_and_bound (Own b) (Num x))"
    unfolding heuristic_suggestedSalary by blast
  then have "suggestedSalary (heuristicAnalysis emp budget n)
          = Num (clamp ((9 / 10) * band_min b) ((12 / 10) * band_max b) (nearest_multiple 1000 x))"
    by (simp only: rb(2)) (simp only: rb(1))
  then show ?thesis using clamp_bounds [OF b3] unfolding b_def by fastforce
qed




text \<open>
  Claim C4: the suggested salary lies between 0.9 times the minimum and 1.2 times the
  maximum of the band of the lowercased role, the unknown band when the role is not
  recognized. The source breaks it for a role that names a member every object inherits:
  the lookup of the role \<open>constructor\<close> in the band table gives the inherited member
  instead of the unknown band, and the suggested salary is not a number. For every other
  role the bounds hold.
\<close>

theorem inherited_role_not_bounded:
  "suggestedSalary (heuristicAnalysis constructor_emp None 1) = NaN
   \<and> marketSalaryRange (heuristicAnalysis constructor_emp None 1) = Inherited
   \<and> (role_key emp \<notin> set Object_prototype_names \<longrightarrow>
        (\<exists>x. suggestedSalary (heuristicAnalysis emp budget n) = Num x
           \<and> (9 / 10) * band_min (spec_band (role emp)) \<le> x
           \<and> x \<le> (12 / 10) * band_max (spec_band (role emp))))"
proof -
  have "suggestedSalary (heuristicAnalysis constructor_emp None 1) = NaN
   \<and> marketSalaryRange (heuristicAnalysis constructor_emp None 1) = Inherited"
    by code_simp
  then show ?thesis using suggested_salary_in_band by blast
qed

theorem inherited_role_not_bounded_witness:
  "suggestedSalary (heuristicAnalysis constructor_emp None 1) = NaN
   \<and> suggestedSalary (heuristicAnalysis scenario_emp (Some 5000000) 4) = Num 1730000
   \<and> (9 / 10) * band_min (spec_band (role scenario_emp)) = 540000
   \<and> (12 / 10) * band_max (spec_band (role scenario_emp)) = 2160000"
proof -
  have h: "role_key scenario_emp \<notin> set Object_prototype_names" by code_simp
  have v: "suggestedSalary (heuristicAnalysis scenario_emp (Some 5000000) 4) = Num 1730000"
    by code_simp
  have w: "(9 / 10) * band_min (spec_band (role scenario_emp)) = 540000
   \<and> (12 / 10) * band_max (spec_band (role scenario_emp)) = 2160000"
    by code_simp
  from inherited_role_not_bounded [of scenario_emp "Some 5000000" 4] h v w
  show ?thesis by simp
qed

end
